theory Spec2Isabelle
  imports Complex_Main "HOL-Library.Sublist"
begin

section \<open>The trivia API: data model\<close>

text \<open>
  The handlers of \<^verbatim>\<open>backend/flaskr/__init__.py\<close> work on rows of the
  \<^verbatim>\<open>Question\<close> table. A row has an identity, the question text, the answer,
  the id of its category and a difficulty. The field \<^verbatim>\<open>id\<close> is written
  \<open>id'\<close> here, because \<open>id\<close> is the identity function of HOL. Text is a list of
  8-bit characters. The question store is the list of rows in the order in which an
  unordered query returns them.
\<close>

record Question =
  id' :: int
  question :: string
  answer :: string
  category :: int
  difficulty :: int

type_synonym store = "Question list"

text \<open>The three error handlers the application registers, and the answer Flask gives
  when a handler lets an exception escape.\<close>

datatype http_error = BadRequest | NotFound | Unprocessable | InternalServerError

section \<open>Pagination\<close>

definition QUESTIONS_PER_PAGE :: int where
  "QUESTIONS_PER_PAGE = 10"

text \<open>
  Python's \<^verbatim>\<open>xs[start:end]\<close> on a list: a negative bound counts from the end,
  and each bound is then clamped to \<open>0 .. len(xs)\<close>; the slice is empty when the
  adjusted end is not after the adjusted start. It never raises.
\<close>

definition adjust_index :: "int \<Rightarrow> int \<Rightarrow> int" where
  "adjust_index n i = (if i < 0 then max (i + n) 0 else min i n)"

definition py_slice :: "'a list \<Rightarrow> int \<Rightarrow> int \<Rightarrow> 'a list" where
  "py_slice xs start end =
     (let n = int (length xs);
          s = adjust_index n start;
          e = adjust_index n end
      in take (nat (e - s)) (drop (nat s) xs))"

text \<open>
  \<^verbatim>\<open>request.args.get('page', 1, type=int)\<close>: the page of the query string when it
  is there and reads as an integer (\<open>Some p\<close>), and the default 1 otherwise.
\<close>

definition request_page :: "int option \<Rightarrow> int" where
  "request_page arg = (case arg of None \<Rightarrow> 1 | Some p \<Rightarrow> p)"

text \<open>
  \<^verbatim>\<open>paginate_questions(request, selection)\<close>. The method \<^verbatim>\<open>Question.format\<close>
  belongs to the \<^verbatim>\<open>models\<close> module, which is not part of the sources at hand;
  it is the parameter \<open>fmt\<close>.
\<close>

definition paginate_questions :: "(Question \<Rightarrow> 'f) \<Rightarrow> int option \<Rightarrow> Question list \<Rightarrow> 'f list" where
  "paginate_questions fmt page_arg selection =
     (let page = request_page page_arg;
          start = (page - 1) * QUESTIONS_PER_PAGE;
          end = start + QUESTIONS_PER_PAGE;
          questions = map fmt selection;
          current_questions = py_slice questions start end
      in current_questions)"

section \<open>Search\<close>

text \<open>
  The search handler asks the database for the rows with
  \<^verbatim>\<open>Question.question.ilike('%' + search_term + '%')\<close>. The operator is SQL's
  case-insensitive \<^verbatim>\<open>LIKE\<close>: in the pattern \<^verbatim>\<open>%\<close> stands for any run of
  characters, \<^verbatim>\<open>_\<close> for any one character, a backslash makes the character after
  it stand for itself, and every other character stands for itself in either case.
  The pattern must cover the whole text. Text is taken byte by byte and the letters
  \<^verbatim>\<open>A\<close> to \<^verbatim>\<open>Z\<close> are folded; the database folds letters beyond ASCII as well,
  which this model does not follow.
\<close>

definition to_lower :: "char \<Rightarrow> char" where
  "to_lower c =
     (let n = (of_char c :: nat) in if 65 \<le> n \<and> n \<le> 90 then char_of (n + 32) else c)"

fun like_match :: "string \<Rightarrow> string \<Rightarrow> bool" where
  "like_match [] s = (s = [])"
| "like_match (p # ps) [] = (p = CHR ''%'' \<and> like_match ps [])"
| "like_match (p # ps) (c # cs) =
     (if p = CHR ''%'' then like_match ps (c # cs) \<or> like_match (p # ps) cs
      else if p = CHR ''_'' then like_match ps cs
      else if p = CHR 0x5C then
        (case ps of [] \<Rightarrow> False | e # ps' \<Rightarrow> to_lower e = to_lower c \<and> like_match ps' cs)
      else to_lower p = to_lower c \<and> like_match ps cs)"

definition ilike :: "string \<Rightarrow> string \<Rightarrow> bool" where
  "ilike text pattern = like_match pattern text"

text \<open>The query of lines 210-211: the rows that match, in store order.\<close>

definition search_results :: "store \<Rightarrow> string \<Rightarrow> Question list" where
  "search_results st search_term =
     filter (\<lambda>q. ilike (question q) (''%'' @ search_term @ ''%'')) st"

text \<open>
  The reading of the search in the handler's own comment, for comparison with the query:
  the search term is a substring of the question, letters compared in either case.
\<close>

definition contains_term :: "string \<Rightarrow> string \<Rightarrow> bool" where
  "contains_term search_term text = sublist (map to_lower search_term) (map to_lower text)"

definition substring_search :: "store \<Rightarrow> string \<Rightarrow> Question list" where
  "substring_search st search_term = filter (\<lambda>q. contains_term search_term (question q)) st"

text \<open>The characters with a meaning of their own in a pattern.\<close>

definition plain_char :: "char \<Rightarrow> bool" where
  "plain_char c \<longleftrightarrow> c \<noteq> CHR ''%'' \<and> c \<noteq> CHR ''_'' \<and> c \<noteq> CHR 0x5C"

text \<open>
  The JSON body of a search request, once parsed: \<open>None\<close> for the whole body when
  \<^verbatim>\<open>get_json\<close> gives \<^verbatim>\<open>None\<close>, and \<open>None\<close> for the field when the key
  \<^verbatim>\<open>searchTerm\<close> is absent. The model covers bodies whose search term is a string.
\<close>

record search_body =
  searchTerm :: "string option"

datatype 'f search_response =
  Search_response (sr_questions: "'f list") (sr_total_questions: nat)

text \<open>
  \<^verbatim>\<open>search_questions\<close>. \<^verbatim>\<open>body.get\<close> on \<^verbatim>\<open>None\<close> raises before the
  \<^verbatim>\<open>try\<close>, which Flask answers with 500. Inside the \<^verbatim>\<open>try\<close> every exception,
  the \<^verbatim>\<open>abort(404)\<close> included, ends in \<^verbatim>\<open>abort(404)\<close>: \<^verbatim>\<open>len(None)\<close> for
  an absent term, and the unbound \<^verbatim>\<open>search_results\<close> for the empty term.
\<close>

definition search_questions ::
  "(Question \<Rightarrow> 'f) \<Rightarrow> store \<Rightarrow> search_body option \<Rightarrow> http_error + 'f search_response" where
  "search_questions fmt st body =
     (case body of
        None \<Rightarrow> Inl InternalServerError
      | Some b \<Rightarrow>
          (case searchTerm b of
             None \<Rightarrow> Inl NotFound
           | Some search_term \<Rightarrow>
               if length search_term \<noteq> 0 then
                 (let results = search_results st search_term
                  in if length results = 0 then Inl NotFound
                     else Inr (Search_response (map fmt results) (length results)))
               else Inl NotFound))"

section \<open>Quiz selection\<close>

datatype py_error = ValueError

text \<open>
  \<^verbatim>\<open>random.randrange(0, total, 1)\<close> raises \<^verbatim>\<open>ValueError\<close> on an empty range and
  returns a number below its bound otherwise. The generator is an infinite sequence of
  raw numbers \<open>rng 0, rng 1, ...\<close>, one for each call; the call reduces its number
  into the range.
\<close>

definition randrange :: "nat \<Rightarrow> nat \<Rightarrow> py_error + nat" where
  "randrange total' raw = (if total' = 0 then Inl ValueError else Inr (raw mod total'))"

definition get_random_question :: "Question list \<Rightarrow> nat \<Rightarrow> py_error + Question" where
  "get_random_question questions raw =
     (case randrange (length questions) raw of
        Inl e \<Rightarrow> Inl e
      | Inr i \<Rightarrow> Inr (questions ! i))"

text \<open>The \<^verbatim>\<open>for\<close> loop over the previous questions, with its flag.\<close>

definition check_if_shownbefore :: "int list \<Rightarrow> Question \<Rightarrow> bool" where
  "check_if_shownbefore previous q =
     fold (\<lambda>i shownbefore. if i = id' q then True else shownbefore) previous False"

datatype selection = FOUND Question | EXHAUSTED

text \<open>
  The \<^verbatim>\<open>while\<close> loop of lines 323-330, entered with the question drawn last and
  the position \<open>k\<close> of the next raw number. While the question at hand has been shown,
  the loop draws a new one and then compares the two lengths. The loop need not end:
  \<open>None\<close> is the run that draws shown questions for ever.
\<close>

partial_function (option) redraw ::
  "(nat \<Rightarrow> nat) \<Rightarrow> nat \<Rightarrow> Question list \<Rightarrow> int list \<Rightarrow> Question \<Rightarrow> (py_error + selection) option" where
  "redraw rng k questions previous q =
     (if check_if_shownbefore previous q then
        (case get_random_question questions (rng k) of
           Inl e \<Rightarrow> Some (Inl e)
         | Inr q' \<Rightarrow>
             if length previous = length questions then Some (Inr EXHAUSTED)
             else redraw rng (Suc k) questions previous q')
      else Some (Inr (FOUND q)))"

text \<open>The pool of lines 292-296.\<close>

definition candidate_pool :: "store \<Rightarrow> int \<Rightarrow> Question list" where
  "candidate_pool st category_id =
     (if category_id = 0 then st else filter (\<lambda>q. category q = category_id) st)"

text \<open>
  The body of a quiz request, once parsed; \<open>None\<close> in a field is an absent key. The
  model covers bodies in which \<^verbatim>\<open>quiz_category\<close> is an object whose \<^verbatim>\<open>id\<close> is
  an integer, kept here, and \<^verbatim>\<open>previous_questions\<close> is a list of integers.
\<close>

record quiz_body =
  quiz_category :: "int option"
  previous_questions :: "int list option"

datatype 'f quiz_response = Quiz_question 'f | Quiz_success_only

text \<open>
  \<^verbatim>\<open>play_quiz\<close>. Everything runs inside the \<^verbatim>\<open>try\<close>, whose handler is
  \<^verbatim>\<open>abort(400)\<close>. \<open>None\<close> is the request that never gets its answer.
\<close>

definition play_quiz ::
  "(Question \<Rightarrow> 'f) \<Rightarrow> (nat \<Rightarrow> nat) \<Rightarrow> store \<Rightarrow> quiz_body option
     \<Rightarrow> (http_error + 'f quiz_response) option" where
  "play_quiz fmt rng st body =
     (case body of
        None \<Rightarrow> Some (Inl BadRequest)
      | Some b \<Rightarrow>
          (case (quiz_category b, previous_questions b) of
             (Some category_id, Some previous) \<Rightarrow>
               (let questions = candidate_pool st category_id
                in case get_random_question questions (rng 0) of
                     Inl e \<Rightarrow> Some (Inl BadRequest)
                   | Inr q \<Rightarrow>
                       (case redraw rng 1 questions previous q of
                          None \<Rightarrow> None
                        | Some (Inl e) \<Rightarrow> Some (Inl BadRequest)
                        | Some (Inr EXHAUSTED) \<Rightarrow> Some (Inr Quiz_success_only)
                        | Some (Inr (FOUND q')) \<Rightarrow> Some (Inr (Quiz_question (fmt q')))))
           | _ \<Rightarrow> Some (Inl BadRequest)))"

section \<open>Deleting and creating questions\<close>

text \<open>\<^verbatim>\<open>Question.query.get(question_id)\<close>: the row with that primary key, if any.\<close>

definition query_get :: "store \<Rightarrow> int \<Rightarrow> Question option" where
  "query_get st question_id = find (\<lambda>q. id' q = question_id) st"

datatype 'f delete_response =
  Delete_response (dr_deleted: int) (dr_questions: "'f list") (dr_total_questions: nat)

text \<open>
  \<^verbatim>\<open>delete_questions\<close>, returning its answer and the store it leaves. The method
  \<^verbatim>\<open>Question.delete\<close> belongs to the absent \<^verbatim>\<open>models\<close> module; it is the
  parameter \<open>del\<close>, which gives the new store, or \<open>None\<close> when the database raises.
  The \<^verbatim>\<open>abort(404)\<close> for a missing row is raised inside the \<^verbatim>\<open>try\<close>, so the bare
  \<^verbatim>\<open>except\<close> turns it into \<^verbatim>\<open>abort(422)\<close>.
\<close>

definition delete_questions ::
  "(Question \<Rightarrow> 'f) \<Rightarrow> (store \<Rightarrow> Question \<Rightarrow> store option) \<Rightarrow> int option \<Rightarrow> store \<Rightarrow> int
     \<Rightarrow> (http_error + 'f delete_response) \<times> store" where
  "delete_questions fmt del page_arg st question_id =
     (case query_get st question_id of
        None \<Rightarrow> (Inl Unprocessable, st)
      | Some q \<Rightarrow>
          (case del st q of
             None \<Rightarrow> (Inl Unprocessable, st)
           | Some st' \<Rightarrow>
               (let selection = sort_key id' st';
                    current_questions = paginate_questions fmt page_arg selection
                in (Inr (Delete_response question_id current_questions (length st')), st'))))"

text \<open>
  The body of a create request is a JSON object: the list of its keys with their
  values, empty for \<^verbatim>\<open>{}\<close>. \<^verbatim>\<open>body.get(key, None)\<close> is \<open>map_of body key\<close>.
\<close>

datatype json = JInt int | JStr string

type_synonym json_object = "(string \<times> json) list"

datatype add_response = Add_response (ar_created: int) (ar_total_questions: nat)

text \<open>
  What \<^verbatim>\<open>request.get_json()\<close> does with the body of a request: it raises the
  error 400 for a body that is not JSON, or it returns a value. The value is the JSON
  object, or \<^verbatim>\<open>None\<close> or another value without the method \<^verbatim>\<open>get\<close>.
\<close>

datatype request_json = Unparseable | No_object | Object json_object

text \<open>
  \<^verbatim>\<open>add_questions\<close>. The constructor of \<^verbatim>\<open>Question\<close> and \<^verbatim>\<open>insert\<close> belong to
  the absent \<^verbatim>\<open>models\<close> module; together they are the parameter \<open>ins\<close>, which
  takes the four values read from the body and gives the new row and the new store, or
  \<open>None\<close> when either raises. \<^verbatim>\<open>get_json\<close> and the four calls of
  \<^verbatim>\<open>body.get\<close> come before the \<^verbatim>\<open>try\<close>: the error 400 of the former goes to
  the client as it is, and the \<^verbatim>\<open>AttributeError\<close> of the latter as the error 500.
\<close>

definition add_questions ::
  "(store \<Rightarrow> json option \<times> json option \<times> json option \<times> json option \<Rightarrow> (Question \<times> store) option)
     \<Rightarrow> store \<Rightarrow> request_json \<Rightarrow> (http_error + add_response) \<times> store" where
  "add_questions ins st body =
     (case body of
        Unparseable \<Rightarrow> (Inl BadRequest, st)
      | No_object \<Rightarrow> (Inl InternalServerError, st)
      | Object b \<Rightarrow>
          (let new_question = map_of b ''question'';
               new_answer = map_of b ''answer'';
               new_category = map_of b ''category'';
               new_difficulty = map_of b ''difficulty''
           in if b = [] then (Inl Unprocessable, st)
              else (case ins st (new_question, new_answer, new_category, new_difficulty) of
                      None \<Rightarrow> (Inl Unprocessable, st)
                    | Some (q, st') \<Rightarrow> (Inr (Add_response (id' q) (length st')), st'))))"

section \<open>Example data\<close>

text \<open>A small store for the worked examples: three questions of category 5, with the ids
  2, 5 and 9, and one of category 3.\<close>

definition capital_question :: Question where
  "capital_question =
     \<lparr>id' = 2, question = ''What is the capital of France?'', answer = ''Paris'',
      category = 5, difficulty = 1\<rparr>"

definition hamlet_question :: Question where
  "hamlet_question =
     \<lparr>id' = 4, question = ''Who wrote Hamlet?'', answer = ''Shakespeare'',
      category = 3, difficulty = 2\<rparr>"

definition title_question :: Question where
  "title_question =
     \<lparr>id' = 5, question = ''Which Title did Ali win?'', answer = ''Heavyweight'',
      category = 5, difficulty = 3\<rparr>"

definition moons_question :: Question where
  "moons_question =
     \<lparr>id' = 9, question = ''How many moons has Mars?'', answer = ''2'',
      category = 5, difficulty = 2\<rparr>"

definition sample_store :: store where
  "sample_store = [capital_question, hamlet_question, title_question, moons_question]"

text \<open>Twelve questions with the ids 1 to 12, for the second page.\<close>

definition twelve_questions :: store where
  "twelve_questions = map (\<lambda>i. capital_question\<lparr>id' := i\<rparr>) [1..12]"

text \<open>
  Stand-ins for the absent methods in the examples: an insert that gives a new row the
  next id and refuses a row with a missing or ill-typed field, and a delete that removes
  the row with the given id. Nothing is claimed about the real ones.
\<close>

definition next_id :: "store \<Rightarrow> int" where
  "next_id st = fold max (map id' st) 0 + 1"

definition strict_insert ::
  "store \<Rightarrow> json option \<times> json option \<times> json option \<times> json option \<Rightarrow> (Question \<times> store) option" where
  "strict_insert st vals =
     (case vals of
        (Some (JStr q), Some (JStr a), Some (JInt c), Some (JInt d)) \<Rightarrow>
          (let row = \<lparr>id' = next_id st, question = q, answer = a, category = c, difficulty = d\<rparr>
           in Some (row, st @ [row]))
      | _ \<Rightarrow> None)"

definition remove_row :: "store \<Rightarrow> Question \<Rightarrow> store option" where
  "remove_row st q = Some (filter (\<lambda>r. id' r \<noteq> id' q) st)"

text \<open>A generator whose raw numbers are 0, 1, 2, ...\<close>

definition counting_rng :: "nat \<Rightarrow> nat" where
  "counting_rng k = k"

section \<open>Properties of the paginator\<close>

lemma py_slice_nonneg:
  assumes "0 \<le> start" and "0 \<le> len"
  shows "py_slice xs start (start + len) = take (nat len) (drop (nat start) xs)"
proof (cases "start \<le> int (length xs)")
  case True
  with assms have "take (nat (min (start + len) (int (length xs)) - start)) (drop (nat start) xs)
        = take (nat len) (drop (nat start) xs)"
    by (simp add: min_def)
  with assms True show ?thesis
    by (simp add: py_slice_def adjust_index_def Let_def)
next
  case False
  with assms show ?thesis
    by (simp add: py_slice_def adjust_index_def Let_def)
qed

lemma paginate_questions_take_drop:
  assumes "1 \<le> p"
  shows "paginate_questions fmt (Some p) selection
           = take 10 (drop (nat ((p - 1) * 10)) (map fmt selection))"
proof -
  from assms have "0 \<le> (p - 1) * 10" by simp
  then have "py_slice (map fmt selection) ((p - 1) * 10) ((p - 1) * 10 + 10)
               = take (nat 10) (drop (nat ((p - 1) * 10)) (map fmt selection))"
    by (rule py_slice_nonneg) simp
  then show ?thesis
    by (simp add: paginate_questions_def request_page_def QUESTIONS_PER_PAGE_def Let_def)
qed

lemma paginate_questions_length:
  assumes "1 \<le> p"
  shows "int (length (paginate_questions fmt (Some p) selection))
           = min 10 (max 0 (int (length selection) - (p - 1) * 10))"
proof -
  define k where "k = nat ((p - 1) * 10)"
  with assms have k: "int k = (p - 1) * 10" by simp
  have "length (paginate_questions fmt (Some p) selection) = min 10 (length selection - k)"
    using assms by (simp add: paginate_questions_take_drop k_def min.commute)
  then show ?thesis unfolding k [symmetric] by linarith
qed

lemma concat_chunks:
  "concat (map (\<lambda>k. take S (drop (k * S) xs)) [0..<n]) = take (n * S) xs"
proof (induction n)
  case 0
  show ?case by simp
next
  case (Suc n)
  have "Suc n * S = n * S + S" by simp
  then have "take (Suc n * S) xs = take (n * S) xs @ take S (drop (n * S) xs)"
    by (simp only: take_add)
  with Suc show ?case by simp
qed

lemma ceiling_tenth: "nat \<lceil>real n / 10\<rceil> = (n + 9) div 10"
  by linarith

lemma twelve_ids: "map id' twelve_questions = [1, 2, 3, 4, 5, 6, 7, 8, 9, 10, 11, 12]"
  by (simp add: twelve_questions_def upto.simps comp_def)

text \<open>
  Claim C3. For every selection and every page \<open>p \<ge> 1\<close>, with ten questions to the page,
  the paginator returns the formatted items from offset \<open>(p - 1) * 10\<close> on, at most ten of
  them and no more than the selection has left: its length is
  \<open>min 10 (max 0 (len - (p - 1) * 10))\<close>. A page beyond the end is the empty list, not
  an error.
\<close>

theorem paginate_page:
  assumes "1 \<le> p"
  shows "paginate_questions fmt (Some p) selection
           = take 10 (drop (nat ((p - 1) * 10)) (map fmt selection))
       \<and> int (length (paginate_questions fmt (Some p) selection))
           = min 10 (max 0 (int (length selection) - (p - 1) * 10))
       \<and> (int (length selection) \<le> (p - 1) * 10
            \<longrightarrow> paginate_questions fmt (Some p) selection = [])"
proof (intro conjI impI)
  show "paginate_questions fmt (Some p) selection
           = take 10 (drop (nat ((p - 1) * 10)) (map fmt selection))"
    using assms by (rule paginate_questions_take_drop)
  show len: "int (length (paginate_questions fmt (Some p) selection))
           = min 10 (max 0 (int (length selection) - (p - 1) * 10))"
    using assms by (rule paginate_questions_length)
  assume "int (length selection) \<le> (p - 1) * 10"
  with len have "length (paginate_questions fmt (Some p) selection) = 0" by linarith
  then show "paginate_questions fmt (Some p) selection = []" by simp
qed

text \<open>Page 2 of twelve questions holds the ids 11 and 12; page 3 is empty.\<close>

theorem paginate_page_witness:
  "(1::int) \<le> 2 \<and> paginate_questions id' (Some 2) twelve_questions = [11, 12]
     \<and> int (length (paginate_questions id' (Some 2) twelve_questions)) = 2
     \<and> int (length twelve_questions) \<le> (3 - 1) * 10
     \<and> paginate_questions id' (Some 3) twelve_questions = []"
  using paginate_page [of 2 id' twelve_questions] paginate_page [of 3 id' twelve_questions]
  by (simp add: twelve_ids) (simp add: twelve_questions_def)

text \<open>
  Claim C4. The pages 1 to \<open>\<lceil>len / 10\<rceil>\<close> of a selection, one after the other, are
  the formatted selection.
\<close>

theorem paginate_concat:
  "concat (map (\<lambda>p. paginate_questions fmt (Some (int p)) selection)
               [1..<Suc (nat \<lceil>real (length selection) / 10\<rceil>)])
     = map fmt selection"
proof -
  define n where "n = nat \<lceil>real (length selection) / 10\<rceil>"
  have n: "length selection \<le> n * 10"
    unfolding n_def ceiling_tenth by simp
  have page: "paginate_questions fmt (Some (1 + int k)) selection
                = take 10 (drop (k * 10) (map fmt selection))" for k
    using paginate_questions_take_drop [of "1 + int k" fmt selection]
    by (simp add: nat_mult_distrib)
  have "[1..<Suc n] = map Suc [0..<n]"
    by (simp add: map_Suc_upt)
  then have "concat (map (\<lambda>p. paginate_questions fmt (Some (int p)) selection) [1..<Suc n])
          = concat (map (\<lambda>k. take 10 (drop (k * 10) (map fmt selection))) [0..<n])"
    by (simp add: comp_def page del: upt_Suc)
  also have "\<dots> = take (n * 10) (map fmt selection)"
    by (rule concat_chunks)
  also have "\<dots> = map fmt selection"
    using n by simp
  finally show ?thesis
    unfolding n_def .
qed

text \<open>
  Claim C10. Page 0 is empty for every selection: the slice runs from \<open>-10\<close> to \<open>0\<close>.
\<close>

theorem paginate_page_zero: "paginate_questions fmt (Some 0) selection = []"
  by (simp add: paginate_questions_def request_page_def QUESTIONS_PER_PAGE_def py_slice_def
      adjust_index_def Let_def)

section \<open>Properties of the quiz selector\<close>

lemma check_if_shownbefore_fold:
  "fold (\<lambda>i shownbefore. if i = x then True else shownbefore) previous b
     \<longleftrightarrow> b \<or> x \<in> set previous"
  by (induction previous arbitrary: b) auto

lemma check_if_shownbefore_iff:
  "check_if_shownbefore previous q \<longleftrightarrow> id' q \<in> set previous"
  by (simp add: check_if_shownbefore_def check_if_shownbefore_fold)

lemma get_random_question_Nil: "get_random_question [] raw = Inl ValueError"
  by (simp add: get_random_question_def randrange_def)

lemma get_random_question_Inr:
  "get_random_question questions raw = Inr q \<Longrightarrow> q \<in> set questions"
  by (auto simp: get_random_question_def randrange_def split: if_splits)

lemma get_random_question_nonempty:
  "questions \<noteq> [] \<Longrightarrow> get_random_question questions raw = Inr (questions ! (raw mod length questions))"
  by (simp add: get_random_question_def randrange_def)

lemma redraw_found:
  assumes "redraw rng k questions previous q = Some (Inr (FOUND r))"
  shows "(r = q \<or> r \<in> set questions) \<and> id' r \<notin> set previous"
proof -
  let ?P = "\<lambda>(rng :: nat \<Rightarrow> nat) (k :: nat) (questions :: Question list) (previous :: int list)
              (q :: Question) (y :: py_error + selection).
              \<forall>r. y = Inr (FOUND r) \<longrightarrow> (r = q \<or> r \<in> set questions) \<and> id' r \<notin> set previous"
  have "?P rng k questions previous q (Inr (FOUND r))"
  proof (rule redraw.raw_induct [where P = ?P, OF _ assms])
    fix redraw' rng k questions previous q y
    assume IH: "\<And>rng k questions previous q y.
                  redraw' rng k questions previous q = Some y \<Longrightarrow> ?P rng k questions previous q y"
      and step: "(if check_if_shownbefore previous q then
                   (case get_random_question questions (rng k) of
                      Inl e \<Rightarrow> Some (Inl e)
                    | Inr q' \<Rightarrow>
                        if length previous = length questions then Some (Inr EXHAUSTED)
                        else redraw' rng (Suc k) questions previous q')
                  else Some (Inr (FOUND q))) = Some y"
    show "?P rng k questions previous q y"
    proof (cases "check_if_shownbefore previous q")
      case False
      with step show ?thesis
        by (auto simp: check_if_shownbefore_iff)
    next
      case shown: True
      show ?thesis
      proof (cases "get_random_question questions (rng k)")
        case (Inl e)
        with shown step show ?thesis by auto
      next
        case (Inr q')
        then have mem: "q' \<in> set questions" by (rule get_random_question_Inr)
        show ?thesis
        proof (cases "length previous = length questions")
          case True
          with shown Inr step show ?thesis by auto
        next
          case False
          with shown Inr step
          have "redraw' rng (Suc k) questions previous q' = Some y" by simp
          from IH [OF this] mem show ?thesis by auto
        qed
      qed
    qed
  qed
  then show ?thesis by blast
qed

lemma redraw_exhausted:
  assumes "questions \<noteq> []" and "check_if_shownbefore previous q"
    and "length previous = length questions"
  shows "redraw rng k questions previous q = Some (Inr EXHAUSTED)"
  using assms by (subst redraw.simps) (simp add: get_random_question_nonempty)

lemma redraw_no_error:
  assumes "questions \<noteq> []"
  shows "redraw rng k questions previous q \<noteq> Some (Inl e)"
proof
  let ?P = "\<lambda>(rng :: nat \<Rightarrow> nat) (k :: nat) (questions :: Question list) (previous :: int list)
              (q :: Question) (y :: py_error + selection).
              questions \<noteq> [] \<longrightarrow> (\<forall>e. y \<noteq> Inl e)"
  assume err: "redraw rng k questions previous q = Some (Inl e)"
  have "?P rng k questions previous q (Inl e)"
    by (rule redraw.raw_induct [where P = ?P, OF _ err])
       (fastforce simp: get_random_question_nonempty split: if_splits)
  with assms show False by simp
qed

text \<open>
  The loop ends with a question as soon as some draw meets a question not shown before,
  unless the two lengths agree.
\<close>

lemma redraw_terminates:
  assumes "questions \<noteq> []" and "length previous \<noteq> length questions"
    and "\<not> check_if_shownbefore previous (questions ! (rng (k + n) mod length questions))"
  shows "\<exists>r. redraw rng k questions previous q = Some (Inr (FOUND r))"
  using assms(3)
proof (induction n arbitrary: k q)
  case 0
  show ?case
  proof (cases "check_if_shownbefore previous q")
    case False
    then show ?thesis by (subst redraw.simps) simp
  next
    case True
    let ?q' = "questions ! (rng k mod length questions)"
    from 0 have "redraw rng (Suc k) questions previous ?q' = Some (Inr (FOUND ?q'))"
      by (subst redraw.simps) simp
    with True assms(1,2) show ?thesis
      by (subst redraw.simps) (simp add: get_random_question_nonempty)
  qed
next
  case (Suc n)
  show ?case
  proof (cases "check_if_shownbefore previous q")
    case False
    then show ?thesis by (subst redraw.simps) simp
  next
    case True
    let ?q' = "questions ! (rng k mod length questions)"
    from Suc.prems have "\<not> check_if_shownbefore previous (questions ! (rng (Suc k + n) mod length questions))"
      by simp
    from Suc.IH [OF this, of ?q'] obtain r where "redraw rng (Suc k) questions previous ?q' = Some (Inr (FOUND r))"
      by blast
    with True assms(1,2) show ?thesis
      by (subst redraw.simps) (simp add: get_random_question_nonempty)
  qed
qed

text \<open>
  Claim C1. Take a quiz request whose pool is not empty and whose previous ids are a
  proper subset of the ids of the pool. If the answer carries a question, then it is the
  formatted form of a question whose id is not among the previous ids and which belongs
  to the pool: any question of the store when the category id is 0, and a question of
  that category otherwise.
\<close>

theorem play_quiz_found:
  assumes "candidate_pool st category_id \<noteq> []"
    and "set previous \<subset> id' ` set (candidate_pool st category_id)"
    and "play_quiz fmt rng st
           (Some \<lparr>quiz_category = Some category_id, previous_questions = Some previous\<rparr>)
         = Some (Inr (Quiz_question x))"
  shows "\<exists>q. x = fmt q \<and> id' q \<notin> set previous
           \<and> q \<in> set (if category_id = 0 then st else filter (\<lambda>q. category q = category_id) st)"
proof -
  let ?pool = "candidate_pool st category_id"
  from assms(1) obtain q0 where first: "get_random_question ?pool (rng 0) = Inr q0"
    by (simp add: get_random_question_nonempty)
  then have q0: "q0 \<in> set ?pool" by (rule get_random_question_Inr)
  from assms(3) first obtain q where found: "redraw rng 1 ?pool previous q0 = Some (Inr (FOUND q))"
    and x: "x = fmt q"
    by (auto simp: play_quiz_def Let_def split: option.splits sum.splits selection.splits)
  from redraw_found [OF found] q0 have "q \<in> set ?pool" and "id' q \<notin> set previous" by auto
  with x show ?thesis by (auto simp: candidate_pool_def)
qed

text \<open>Category 5 with question 2 shown: the first draw is question 2, the second
  question 5, which is the answer.\<close>

theorem play_quiz_found_witness:
  "candidate_pool sample_store 5 \<noteq> []
   \<and> set [2] \<subset> id' ` set (candidate_pool sample_store 5)
   \<and> play_quiz question counting_rng sample_store
        (Some \<lparr>quiz_category = Some 5, previous_questions = Some [2]\<rparr>)
      = Some (Inr (Quiz_question (question title_question)))
   \<and> (\<exists>q. question title_question = question q \<and> id' q \<notin> set [2]
           \<and> q \<in> set (if (5::int) = 0 then sample_store else filter (\<lambda>q. category q = 5) sample_store))"
proof -
  have pool: "candidate_pool sample_store 5 = [capital_question, title_question, moons_question]"
    by (simp add: candidate_pool_def sample_store_def capital_question_def hamlet_question_def
        title_question_def moons_question_def)
  have h1: "candidate_pool sample_store 5 \<noteq> []"
    by (simp add: pool)
  have h2: "set [2] \<subset> id' ` set (candidate_pool sample_store 5)"
    by (auto simp add: pool capital_question_def title_question_def moons_question_def)
  have h3: "play_quiz question counting_rng sample_store
        (Some \<lparr>quiz_category = Some 5, previous_questions = Some [2]\<rparr>)
      = Some (Inr (Quiz_question (question title_question)))"
    by (simp add: play_quiz_def pool get_random_question_def randrange_def counting_rng_def
        redraw.simps check_if_shownbefore_def capital_question_def title_question_def)
  from play_quiz_found [OF h1 h2 h3] h1 h2 h3 show ?thesis by simp
qed

text \<open>
  Claim C2. When the question drawn has been shown before and there are as many previous
  ids as questions in the pool, the selection ends as exhausted: the request is answered
  with success and without a question, and not with an error. The source takes the new
  draw first and compares the lengths next, so the draw is made and dropped; no later
  raw number has a part in the answer. As neither length changes in the loop, the
  comparison can only succeed at the first redraw.
\<close>

theorem play_quiz_exhausted:
  assumes "get_random_question (candidate_pool st category_id) (rng 0) = Inr q"
    and "check_if_shownbefore previous q"
    and "length previous = length (candidate_pool st category_id)"
  shows "play_quiz fmt rng st
           (Some \<lparr>quiz_category = Some category_id, previous_questions = Some previous\<rparr>)
         = Some (Inr Quiz_success_only)"
proof -
  from assms(1) have "candidate_pool st category_id \<noteq> []"
    by (auto simp: get_random_question_Nil)
  then have "redraw rng 1 (candidate_pool st category_id) previous q = Some (Inr EXHAUSTED)"
    using assms(2,3) by (rule redraw_exhausted)
  with assms(1) show ?thesis
    by (simp add: play_quiz_def)
qed

text \<open>Category 5 with all of 2, 5 and 9 shown.\<close>

theorem play_quiz_exhausted_witness:
  "get_random_question (candidate_pool sample_store 5) (counting_rng 0) = Inr capital_question
   \<and> check_if_shownbefore [2, 5, 9] capital_question
   \<and> length [2, 5, 9 :: int] = length (candidate_pool sample_store 5)
   \<and> play_quiz question counting_rng sample_store
        (Some \<lparr>quiz_category = Some 5, previous_questions = Some [2, 5, 9]\<rparr>)
      = Some (Inr Quiz_success_only)"
proof -
  have pool: "candidate_pool sample_store 5 = [capital_question, title_question, moons_question]"
    by (simp add: candidate_pool_def sample_store_def capital_question_def hamlet_question_def
        title_question_def moons_question_def)
  have h1: "get_random_question (candidate_pool sample_store 5) (counting_rng 0) = Inr capital_question"
    by (simp add: pool get_random_question_def randrange_def counting_rng_def)
  have h2: "check_if_shownbefore [2, 5, 9] capital_question"
    by (simp add: check_if_shownbefore_def capital_question_def)
  have h3: "length [2, 5, 9 :: int] = length (candidate_pool sample_store 5)"
    by (simp add: pool)
  from play_quiz_exhausted [where rng = counting_rng and fmt = question, OF h1 h2 h3] h1 h2 h3
  show ?thesis by simp
qed

text \<open>
  Claim C7. A quiz request whose pool is empty is answered with the error 400; it is
  neither a question nor the exhausted answer.
\<close>

theorem play_quiz_empty_pool:
  assumes "candidate_pool st category_id = []"
  shows "play_quiz fmt rng st
           (Some \<lparr>quiz_category = Some category_id, previous_questions = previous\<rparr>)
         = Some (Inl BadRequest)"
  using assms
  by (simp add: play_quiz_def get_random_question_Nil split: option.splits)

text \<open>No question of the example store has category 7.\<close>

theorem play_quiz_empty_pool_witness:
  "candidate_pool sample_store 7 = []
   \<and> play_quiz question counting_rng sample_store
        (Some \<lparr>quiz_category = Some 7, previous_questions = Some []\<rparr>)
      = Some (Inl BadRequest)"
proof -
  have h: "candidate_pool sample_store 7 = []"
    by (simp add: candidate_pool_def sample_store_def capital_question_def hamlet_question_def
        title_question_def moons_question_def)
  from play_quiz_empty_pool [OF h] h show ?thesis by simp
qed

section \<open>Properties of the search\<close>

text \<open>
  For a search term without \<^verbatim>\<open>%\<close>, \<^verbatim>\<open>_\<close> and backslash the query is the
  substring search of the handler's comment, and its result keeps the order of the store.
\<close>

lemma like_match_percent: "like_match ''%'' s"
  by (induction s) simp_all

lemma like_match_plain_prefix:
  assumes "\<forall>c \<in> set t. plain_char c"
  shows "like_match (t @ ''%'') s \<longleftrightarrow> prefix (map to_lower t) (map to_lower s)"
  using assms
proof (induction t arbitrary: s)
  case Nil
  show ?case by (simp add: like_match_percent)
next
  case (Cons p ps)
  then have p: "p \<noteq> CHR ''%''" "p \<noteq> CHR ''_''" "p \<noteq> CHR 0x5C"
    by (simp_all add: plain_char_def)
  show ?case
  proof (cases s)
    case Nil
    with p show ?thesis by simp
  next
    case (Cons c cs)
    with p Cons.IH [of cs] Cons.prems show ?thesis by simp
  qed
qed

lemma like_match_plain_sublist:
  assumes "\<forall>c \<in> set t. plain_char c"
  shows "like_match (''%'' @ t @ ''%'') s \<longleftrightarrow> sublist (map to_lower t) (map to_lower s)"
proof (induction s)
  case Nil
  have "like_match (''%'' @ t @ ''%'') [] \<longleftrightarrow> like_match (t @ ''%'') []"
    by simp
  also have "\<dots> \<longleftrightarrow> prefix (map to_lower t) (map to_lower [])"
    using assms by (rule like_match_plain_prefix)
  finally show ?case by simp
next
  case (Cons c cs)
  have "like_match (''%'' @ t @ ''%'') (c # cs)
          \<longleftrightarrow> like_match (t @ ''%'') (c # cs) \<or> like_match (''%'' @ t @ ''%'') cs"
    by simp
  also have "\<dots> \<longleftrightarrow> prefix (map to_lower t) (map to_lower (c # cs))
                       \<or> sublist (map to_lower t) (map to_lower cs)"
    using like_match_plain_prefix [OF assms] Cons.IH by simp
  also have "\<dots> \<longleftrightarrow> sublist (map to_lower t) (map to_lower (c # cs))"
    by (simp add: sublist_Cons_right)
  finally show ?case .
qed

lemma search_results_plain:
  assumes "\<forall>c \<in> set search_term. plain_char c"
  shows "search_results st search_term = substring_search st search_term"
  using like_match_plain_sublist [OF assms]
  by (simp add: search_results_def substring_search_def ilike_def contains_term_def)

lemma search_results_subseq: "subseq (search_results st search_term) st"
  by (simp add: search_results_def)

text \<open>
  Claim C5. The search is to return exactly the questions whose text contains the search
  term, in either case. The query does not: the search term goes into the pattern as it
  is, so that \<^verbatim>\<open>_\<close> in it stands for any character. With the search term
  \<^verbatim>\<open>_\<close> the query returns every question of the example store, and none of them
  contains an underscore.
\<close>

theorem search_underscore:
  "search_results sample_store ''_'' = sample_store \<and> substring_search sample_store ''_'' = []"
  by code_simp

text \<open>
  Claim C6. A search whose query returns no question is answered with the error 404,
  not with an empty list of questions.
\<close>

theorem search_empty_not_found:
  assumes "search_results st search_term = []"
  shows "search_questions fmt st (Some \<lparr>searchTerm = Some search_term\<rparr>) = Inl NotFound"
  using assms by (simp add: search_questions_def)

text \<open>No question of the example store contains \<^verbatim>\<open>zxcvb\<close>.\<close>

theorem search_empty_not_found_witness:
  "search_results sample_store ''zxcvb'' = []
   \<and> search_questions question sample_store (Some \<lparr>searchTerm = Some ''zxcvb''\<rparr>) = Inl NotFound"
proof -
  have h: "search_results sample_store ''zxcvb'' = []"
    by code_simp
  from search_empty_not_found [OF h] h show ?thesis by simp
qed

section \<open>Properties of deleting and creating\<close>

lemma query_get_None: "query_get st question_id = None \<longleftrightarrow> question_id \<notin> id' ` set st"
  by (auto simp: query_get_def find_None_iff)

lemma delete_questions_error_unchanged:
  "fst (delete_questions fmt del page_arg st question_id) = Inl e
     \<Longrightarrow> snd (delete_questions fmt del page_arg st question_id) = st"
  by (auto simp: delete_questions_def Let_def split: option.splits)

text \<open>
  Claim C8. Deleting an id that no question has is answered with the error 422, and the
  store stays as it was.
\<close>

theorem delete_questions_missing:
  assumes "question_id \<notin> id' ` set st"
  shows "delete_questions fmt del page_arg st question_id = (Inl Unprocessable, st)"
  using assms by (simp add: delete_questions_def query_get_None [symmetric])

text \<open>No question of the example store has the id 7.\<close>

theorem delete_questions_missing_witness:
  "7 \<notin> id' ` set sample_store
   \<and> delete_questions question remove_row None sample_store 7 = (Inl Unprocessable, sample_store)"
proof -
  have h: "7 \<notin> id' ` set sample_store"
    by (simp add: sample_store_def capital_question_def hamlet_question_def title_question_def
      moons_question_def)
  from delete_questions_missing [OF h] h show ?thesis by simp
qed

text \<open>
  Claim C9, as stated, asks for the error 400 on an empty body. The handler answers the
  empty object with 422.
\<close>

theorem add_questions_empty_body:
  "fst (add_questions strict_insert sample_store (Object [])) = Inl Unprocessable
   \<and> fst (add_questions strict_insert sample_store (Object [])) \<noteq> Inl BadRequest"
  by (simp add: add_questions_def)

text \<open>
  Claim C9, amended. A create request whose body is the empty object is answered with the
  error 422, whatever the store holds and whatever the constructor and the insert of the
  models module do: the handler stops before it calls them, and the store stays as it was.
\<close>

theorem add_questions_empty_object:
  "add_questions ins st (Object []) = (Inl Unprocessable, st)"
  by (simp add: add_questions_def)

end
